theory Spec2Isabelle
  imports Complex_Main
begin

section \<open>Token usage cost notebook (tco\_cal.ipynb)\<close>

text \<open>
  The notebook is a sequence of cells over one module namespace. Cell 2 binds the pricing
  and base usage variables, cell 3 defines \<^verbatim>\<open>calculate_token_cost\<close>, cell 4
  (step 1) computes the baseline, cell 5 (step 2) runs the sensitivity sweep, cell 6
  (step 3) the prompt engineering scenario. Cell 7 only plots.

  Numbers: the notebook mixes Python ints (1000, 300, 500, 30), the integer elements of
  the numpy ranges and floats (0.03, 0.06, 0.7); \<^verbatim>\<open>/\<close> is true division. All of
  them are modelled by \<^typ>\<open>real\<close>, so every statement below is about the arithmetic
  the code writes down, without the rounding and the finite range of binary floating
  point and of 64-bit integers.

  Exceptions: the only operation of these cells that can raise on numbers is true
  division, which raises \<^verbatim>\<open>ZeroDivisionError\<close> on a zero divisor. The notebook has
  no \<^verbatim>\<open>try\<close>, \<^verbatim>\<open>raise\<close> or \<^verbatim>\<open>assert\<close>, so a value \<open>Inl e\<close> below
  is the exception \<open>e\<close> leaving the cell uncaught, and \<open>Inr v\<close> is normal completion.
\<close>

subsection \<open>Python values\<close>

datatype py_error = ZeroDivisionError

definition truediv :: "real \<Rightarrow> real \<Rightarrow> py_error + real" where
  "truediv a b = (if b = 0 then Inl ZeroDivisionError else Inr (a / b))"

subsection \<open>Cell 2: pricing parameters and base parameters\<close>

text \<open>
  The module-level variables that the later cells read. \<^verbatim>\<open>calculate_token_cost\<close>
  reads \<^verbatim>\<open>days\<close> and the two prices from the namespace, not from its arguments.
\<close>

record globals =
  prompt_cost_per_1k_tokens :: real
  completion_cost_per_1k_tokens :: real
  base_daily_requests :: real
  base_prompt_tokens :: real
  base_completion_tokens :: real
  days :: real

definition notebook_globals :: globals where
  "notebook_globals =
     \<lparr> prompt_cost_per_1k_tokens = 3 / 100,
       completion_cost_per_1k_tokens = 6 / 100,
       base_daily_requests = 1000,
       base_prompt_tokens = 300,
       base_completion_tokens = 500,
       days = 30 \<rparr>"

subsection \<open>Cell 3: the cost function\<close>

text \<open>
  \<^verbatim>\<open>
  def calculate_token_cost(daily_requests, prompt_tokens, completion_tokens):
      total_prompt_tokens = prompt_tokens * daily_requests * days
      total_completion_tokens = completion_tokens * daily_requests * days
      prompt_cost = (total_prompt_tokens / 1000) * prompt_cost_per_1k_tokens
      completion_cost = (total_completion_tokens / 1000) * completion_cost_per_1k_tokens
      total_cost = prompt_cost + completion_cost
      return total_cost, prompt_cost, completion_cost
  \<close>
  The result is the triple in the order the code returns it: total, prompt, completion.
\<close>

definition calculate_token_cost ::
  "globals \<Rightarrow> real \<Rightarrow> real \<Rightarrow> real \<Rightarrow> py_error + (real \<times> real \<times> real)" where
  "calculate_token_cost g daily_requests prompt_tokens completion_tokens =
     (let total_prompt_tokens = prompt_tokens * daily_requests * days g;
          total_completion_tokens = completion_tokens * daily_requests * days g
      in case truediv total_prompt_tokens 1000 of
           Inl e \<Rightarrow> Inl e
         | Inr prompt_thousands \<Rightarrow>
             (let prompt_cost = prompt_thousands * prompt_cost_per_1k_tokens g
              in case truediv total_completion_tokens 1000 of
                   Inl e \<Rightarrow> Inl e
                 | Inr completion_thousands \<Rightarrow>
                     (let completion_cost =
                            completion_thousands * completion_cost_per_1k_tokens g;
                          total_cost = prompt_cost + completion_cost
                      in Inr (total_cost, prompt_cost, completion_cost))))"

subsection \<open>Cell 4 (step 1): baseline cost\<close>

definition baseline :: "globals \<Rightarrow> py_error + (real \<times> real \<times> real)" where
  "baseline g =
     calculate_token_cost g (base_daily_requests g) (base_prompt_tokens g)
       (base_completion_tokens g)"

subsection \<open>Cell 5 (step 2): the sensitivity sweep\<close>

text \<open>
  \<^verbatim>\<open>
  cost_matrix = []
  for daily_requests in daily_requests_range:
      for prompt_tokens in prompt_tokens_range:
          for completion_tokens in completion_tokens_range:
              total_cost, _, _ = calculate_token_cost(daily_requests, prompt_tokens,
                                                      completion_tokens)
              cost_matrix.append((daily_requests, prompt_tokens, completion_tokens,
                                  total_cost))
  \<close>
  One recursive function per loop; the list \<open>cost_matrix\<close> is threaded through as the
  state the loops append to. An exception in the body ends all three loops.
\<close>

type_synonym row = "real \<times> real \<times> real \<times> real"

fun completion_loop ::
  "globals \<Rightarrow> real \<Rightarrow> real \<Rightarrow> real list \<Rightarrow> row list \<Rightarrow> py_error + row list" where
  "completion_loop g daily_requests prompt_tokens [] cost_matrix = Inr cost_matrix"
| "completion_loop g daily_requests prompt_tokens (completion_tokens # rest) cost_matrix =
     (case calculate_token_cost g daily_requests prompt_tokens completion_tokens of
        Inl e \<Rightarrow> Inl e
      | Inr (total_cost, _, _) \<Rightarrow>
          completion_loop g daily_requests prompt_tokens rest
            (cost_matrix @ [(daily_requests, prompt_tokens, completion_tokens, total_cost)]))"

fun prompt_loop ::
  "globals \<Rightarrow> real \<Rightarrow> real list \<Rightarrow> real list \<Rightarrow> row list \<Rightarrow> py_error + row list" where
  "prompt_loop g daily_requests [] completion_tokens_range cost_matrix = Inr cost_matrix"
| "prompt_loop g daily_requests (prompt_tokens # rest) completion_tokens_range cost_matrix =
     (case completion_loop g daily_requests prompt_tokens completion_tokens_range
             cost_matrix of
        Inl e \<Rightarrow> Inl e
      | Inr cost_matrix' \<Rightarrow>
          prompt_loop g daily_requests rest completion_tokens_range cost_matrix')"

fun requests_loop ::
  "globals \<Rightarrow> real list \<Rightarrow> real list \<Rightarrow> real list \<Rightarrow> row list \<Rightarrow> py_error + row list" where
  "requests_loop g [] prompt_tokens_range completion_tokens_range cost_matrix =
     Inr cost_matrix"
| "requests_loop g (daily_requests # rest) prompt_tokens_range completion_tokens_range
       cost_matrix =
     (case prompt_loop g daily_requests prompt_tokens_range completion_tokens_range
             cost_matrix of
        Inl e \<Rightarrow> Inl e
      | Inr cost_matrix' \<Rightarrow>
          requests_loop g rest prompt_tokens_range completion_tokens_range cost_matrix')"

definition sweep :: "globals \<Rightarrow> real list \<Rightarrow> real list \<Rightarrow> real list \<Rightarrow> py_error + row list" where
  "sweep g daily_requests_range prompt_tokens_range completion_tokens_range =
     requests_loop g daily_requests_range prompt_tokens_range completion_tokens_range []"

subsection \<open>Cell 6 (step 3): impact of prompt engineering\<close>

text \<open>
  \<^verbatim>\<open>
  optimized_prompt_tokens = base_prompt_tokens * 0.7
  optimized_completion_tokens = base_completion_tokens * 0.7
  optimized_cost, optimized_prompt_cost, optimized_completion_cost = calculate_token_cost(
      base_daily_requests, optimized_prompt_tokens, optimized_completion_tokens)
  ...
  print(f"Cost Savings: ${baseline_cost - optimized_cost:,.2f} "
        f"({((baseline_cost - optimized_cost) / baseline_cost) * 100:.2f}%)")
  \<close>
  The literal \<^verbatim>\<open>0.7\<close> is the parameter \<open>factor\<close> of \<open>optimized_tokens\<close> and
  \<open>optimized\<close>; the cell itself is their instance at \<open>7 / 10\<close> (\<open>step3\<close>).
  \<open>cost_savings\<close> is the pair of numbers that the last \<^verbatim>\<open>print\<close> formats: the
  savings and the percentage. The f-string is evaluated before anything is printed, so an
  exception in it means that the line is not printed. The two-decimal formatting is
  presentation and is not modelled.
\<close>

definition optimized_tokens :: "real \<Rightarrow> globals \<Rightarrow> real \<times> real" where
  "optimized_tokens factor g =
     (let optimized_prompt_tokens = base_prompt_tokens g * factor;
          optimized_completion_tokens = base_completion_tokens g * factor
      in (optimized_prompt_tokens, optimized_completion_tokens))"

definition optimized :: "real \<Rightarrow> globals \<Rightarrow> py_error + (real \<times> real \<times> real)" where
  "optimized factor g =
     (case optimized_tokens factor g of
        (optimized_prompt_tokens, optimized_completion_tokens) \<Rightarrow>
          calculate_token_cost g (base_daily_requests g) optimized_prompt_tokens
            optimized_completion_tokens)"

definition cost_savings :: "real \<Rightarrow> real \<Rightarrow> py_error + (real \<times> real)" where
  "cost_savings baseline_cost optimized_cost =
     (case truediv (baseline_cost - optimized_cost) baseline_cost of
        Inl e \<Rightarrow> Inl e
      | Inr ratio \<Rightarrow> Inr (baseline_cost - optimized_cost, ratio * 100))"

text \<open>
  Steps 1 and 3 in sequence, for a given factor: the result is what the three lines of
  the prompt engineering report show (original total, optimized total, savings and
  percentage).
\<close>

definition impact :: "real \<Rightarrow> globals \<Rightarrow> py_error + (real \<times> real \<times> real \<times> real)" where
  "impact factor g =
     (case baseline g of
        Inl e \<Rightarrow> Inl e
      | Inr (baseline_cost, _, _) \<Rightarrow>
          (case optimized factor g of
             Inl e \<Rightarrow> Inl e
           | Inr (optimized_cost, _, _) \<Rightarrow>
               (case cost_savings baseline_cost optimized_cost of
                  Inl e \<Rightarrow> Inl e
                | Inr (savings, percentage) \<Rightarrow>
                    Inr (baseline_cost, optimized_cost, savings, percentage))))"

definition step3 :: "globals \<Rightarrow> py_error + (real \<times> real \<times> real \<times> real)" where
  "step3 g = impact (7 / 10) g"

subsection \<open>The specification's operations\<close>

text \<open>
  The specification describes \<open>computeCost\<close> by five equations over the usage
  parameters \<open>(r, p, c, days)\<close> and the schedule \<open>(rate_in, rate_out)\<close>, returning
  the breakdown (input cost, output cost, total cost); its valid inputs by bounds on the
  six numbers; and \<open>sweep\<close> as the Cartesian product in row-major order. These three
  definitions follow the specification's words and are what the code is compared with.
\<close>

definition computeCost_spec ::
  "real \<Rightarrow> real \<Rightarrow> real \<Rightarrow> real \<Rightarrow> real \<Rightarrow> real \<Rightarrow> real \<times> real \<times> real" where
  "computeCost_spec r p c d rate_in rate_out =
     (let total_input_tokens = p * r * d;
          total_output_tokens = c * r * d;
          input_cost = (total_input_tokens / 1000) * rate_in;
          output_cost = (total_output_tokens / 1000) * rate_out;
          total_cost = input_cost + output_cost
      in (input_cost, output_cost, total_cost))"

definition valid_input_spec :: "real \<Rightarrow> real \<Rightarrow> real \<Rightarrow> real \<Rightarrow> real \<Rightarrow> real \<Rightarrow> bool" where
  "valid_input_spec r p c d rate_in rate_out \<longleftrightarrow>
     0 \<le> r \<and> 0 \<le> p \<and> 0 \<le> c \<and> 1 \<le> d \<and> d = of_int \<lfloor>d\<rfloor> \<and> 0 \<le> rate_in \<and> 0 \<le> rate_out"

definition sweep_spec ::
  "real list \<Rightarrow> real list \<Rightarrow> real list \<Rightarrow> real \<Rightarrow> real \<Rightarrow> real \<Rightarrow> row list" where
  "sweep_spec rs ps cs d rate_in rate_out =
     concat (map (\<lambda>r. concat (map (\<lambda>p. map (\<lambda>c.
       (r, p, c, snd (snd (computeCost_spec r p c d rate_in rate_out)))) cs) ps)) rs)"

section \<open>Properties\<close>

subsection \<open>The cost function\<close>

lemma calculate_token_cost_value:
  "calculate_token_cost g r p c =
     Inr ((p * r * days g / 1000) * prompt_cost_per_1k_tokens g
            + (c * r * days g / 1000) * completion_cost_per_1k_tokens g,
          (p * r * days g / 1000) * prompt_cost_per_1k_tokens g,
          (c * r * days g / 1000) * completion_cost_per_1k_tokens g)"
  by (simp add: calculate_token_cost_def truediv_def Let_def)

lemma computeCost_spec_value:
  "computeCost_spec r p c d rate_in rate_out =
     ((p * r * d / 1000) * rate_in, (c * r * d / 1000) * rate_out,
      (p * r * d / 1000) * rate_in + (c * r * d / 1000) * rate_out)"
  by (simp add: computeCost_spec_def Let_def)

text \<open>
  Claim C1. For daily requests \<open>r \<ge> 0\<close>, prompt tokens \<open>p \<ge> 0\<close>, completion tokens
  \<open>c \<ge> 0\<close>, a period of at least one day and non-negative rates, the cost function
  returns normally, and its three results are the input cost, output cost and total cost
  of the specification's five equations: input cost \<open>(p * r * days / 1000) * rate_in\<close>,
  output cost \<open>(c * r * days / 1000) * rate_out\<close>, total cost their sum.
\<close>

theorem calculate_token_cost_formula:
  assumes "0 \<le> r" and "0 \<le> p" and "0 \<le> c" and "1 \<le> days g"
    and "0 \<le> prompt_cost_per_1k_tokens g" and "0 \<le> completion_cost_per_1k_tokens g"
  shows "\<exists>total_cost input_cost output_cost.
           calculate_token_cost g r p c = Inr (total_cost, input_cost, output_cost) \<and>
           (input_cost, output_cost, total_cost) =
             computeCost_spec r p c (days g) (prompt_cost_per_1k_tokens g)
               (completion_cost_per_1k_tokens g) \<and>
           input_cost = (p * r * days g / 1000) * prompt_cost_per_1k_tokens g \<and>
           output_cost = (c * r * days g / 1000) * completion_cost_per_1k_tokens g \<and>
           total_cost = input_cost + output_cost"
  unfolding calculate_token_cost_value computeCost_spec_value by blast

theorem calculate_token_cost_formula_witness:
  "calculate_token_cost notebook_globals 500 100 200 = Inr (225, 45, 180) \<and>
   computeCost_spec 500 100 200 30 (3 / 100) (6 / 100) = (45, 180, 225)"
  using calculate_token_cost_formula [of 500 100 200 notebook_globals]
  by (simp add: notebook_globals_def)

text \<open>
  Claim C10, as stated: the cost function is total on real arguments, validates nothing,
  never fails and returns the value of the linear formula, so that negative inputs yield
  negative costs. The last part fails: the formula multiplies its inputs, so two negative
  inputs give a positive cost. With all three arguments negative the notebook's
  configuration returns the positive baseline costs, and with only the prompt tokens
  negative the total is positive.
\<close>

theorem negative_inputs_positive_costs:
  "calculate_token_cost notebook_globals (-1000) (-300) (-500) = Inr (1170, 270, 900) \<and>
   (0 :: real) < 1170 \<and> (0 :: real) < 270 \<and> (0 :: real) < 900 \<and>
   calculate_token_cost notebook_globals 1000 (-300) 500 = Inr (630, -270, 900) \<and>
   (0 :: real) < 630"
  by (simp add: calculate_token_cost_value notebook_globals_def)

text \<open>
  Claim C10, amended. The cost function is total on real arguments: for every triple of
  daily requests, prompt tokens and completion tokens, negative ones included, it
  validates nothing and raises nothing (its only divisions are by the constant 1000) and
  returns the value of the same linear formula. Negative inputs are not rejected, and the
  costs have the sign that the formula gives them: a negative daily request count, with
  positive token counts, period and prices, gives three negative costs instead of an
  error; in the notebook's configuration \<open>-1000\<close> daily requests cost \<open>-1170\<close>.
\<close>

theorem calculate_token_cost_total:
  "calculate_token_cost g r p c =
     Inr ((p * r * days g / 1000) * prompt_cost_per_1k_tokens g
            + (c * r * days g / 1000) * completion_cost_per_1k_tokens g,
          (p * r * days g / 1000) * prompt_cost_per_1k_tokens g,
          (c * r * days g / 1000) * completion_cost_per_1k_tokens g) \<and>
   (\<forall>e. calculate_token_cost g r p c \<noteq> Inl e) \<and>
   (r < 0 \<and> 0 < p \<and> 0 < c \<and> 0 < days g \<and> 0 < prompt_cost_per_1k_tokens g \<and>
    0 < completion_cost_per_1k_tokens g \<longrightarrow>
      (p * r * days g / 1000) * prompt_cost_per_1k_tokens g
        + (c * r * days g / 1000) * completion_cost_per_1k_tokens g < 0 \<and>
      (p * r * days g / 1000) * prompt_cost_per_1k_tokens g < 0 \<and>
      (c * r * days g / 1000) * completion_cost_per_1k_tokens g < 0)"
proof -
  have neg: "(p * r * days g / 1000) * prompt_cost_per_1k_tokens g < 0"
      "(c * r * days g / 1000) * completion_cost_per_1k_tokens g < 0"
    if "r < 0" "0 < p" "0 < c" "0 < days g" "0 < prompt_cost_per_1k_tokens g"
      "0 < completion_cost_per_1k_tokens g"
    using that by (simp_all add: mult_pos_neg mult_neg_pos divide_neg_pos)
  show ?thesis
    unfolding calculate_token_cost_value using neg by (intro conjI impI allI) auto
qed

theorem calculate_token_cost_total_witness:
  "calculate_token_cost notebook_globals (-1000) 300 500 = Inr (-1170, -270, -900) \<and>
   (-1000 :: real) < 0 \<and> (0 :: real) < 300 \<and> (0 :: real) < 500 \<and>
   0 < days notebook_globals \<and> 0 < prompt_cost_per_1k_tokens notebook_globals \<and>
   0 < completion_cost_per_1k_tokens notebook_globals"
  using calculate_token_cost_total [of notebook_globals "-1000" 300 500]
  by (simp add: notebook_globals_def)

text \<open>
  Claim C2, as the specification states it: the cost function fails with an invalid input
  error whenever a quantity is negative, the period is zero or not a whole number, or a
  rate is negative, and succeeds on every other input. The code has no validation, and
  the statement fails at each of the eight kinds of invalid input: the function returns
  a value there.
\<close>

theorem invalid_input_accepted:
  "\<not> valid_input_spec (-1000) 300 500 30 (3 / 100) (6 / 100) \<and>
   calculate_token_cost notebook_globals (-1000) 300 500 = Inr (-1170, -270, -900) \<and>
   \<not> valid_input_spec 1000 (-300) 500 30 (3 / 100) (6 / 100) \<and>
   calculate_token_cost notebook_globals 1000 (-300) 500 = Inr (630, -270, 900) \<and>
   \<not> valid_input_spec 1000 300 (-500) 30 (3 / 100) (6 / 100) \<and>
   calculate_token_cost notebook_globals 1000 300 (-500) = Inr (-630, 270, -900) \<and>
   \<not> valid_input_spec 1000 300 500 (-30) (3 / 100) (6 / 100) \<and>
   calculate_token_cost (notebook_globals\<lparr>days := -30\<rparr>) 1000 300 500
     = Inr (-1170, -270, -900) \<and>
   \<not> valid_input_spec 1000 300 500 0 (3 / 100) (6 / 100) \<and>
   calculate_token_cost (notebook_globals\<lparr>days := 0\<rparr>) 1000 300 500 = Inr (0, 0, 0) \<and>
   \<not> valid_input_spec 1000 300 500 (1 / 2) (3 / 100) (6 / 100) \<and>
   calculate_token_cost (notebook_globals\<lparr>days := 1 / 2\<rparr>) 1000 300 500
     = Inr (39 / 2, 9 / 2, 15) \<and>
   \<not> valid_input_spec 1000 300 500 30 (- (3 / 100)) (6 / 100) \<and>
   calculate_token_cost (notebook_globals\<lparr>prompt_cost_per_1k_tokens := - (3 / 100)\<rparr>)
       1000 300 500 = Inr (630, -270, 900) \<and>
   \<not> valid_input_spec 1000 300 500 30 (3 / 100) (- (6 / 100)) \<and>
   calculate_token_cost (notebook_globals\<lparr>completion_cost_per_1k_tokens := - (6 / 100)\<rparr>)
       1000 300 500 = Inr (-630, 270, -900)"
  by (simp add: valid_input_spec_def calculate_token_cost_value notebook_globals_def)

text \<open>
  Claim C2, amended. The cost function checks none of its inputs and has no invalid input
  error: for all real values of the daily requests, the token counts, the period and the
  two rates, valid in the specification's sense or not, it raises no exception and
  returns the breakdown of the specification's five equations: input cost
  \<open>(p * r * days / 1000) * rate_in\<close>, output cost
  \<open>(c * r * days / 1000) * rate_out\<close> and their sum as the total.
\<close>

theorem calculate_token_cost_no_validation:
  "\<exists>total_cost input_cost output_cost.
     calculate_token_cost g r p c = Inr (total_cost, input_cost, output_cost) \<and>
     (input_cost, output_cost, total_cost) =
       computeCost_spec r p c (days g) (prompt_cost_per_1k_tokens g)
         (completion_cost_per_1k_tokens g) \<and>
     input_cost = (p * r * days g / 1000) * prompt_cost_per_1k_tokens g \<and>
     output_cost = (c * r * days g / 1000) * completion_cost_per_1k_tokens g \<and>
     total_cost = input_cost + output_cost \<and>
     (\<forall>e. calculate_token_cost g r p c \<noteq> Inl e)"
  unfolding calculate_token_cost_value computeCost_spec_value by blast

text \<open>
  Claim C5. For every valid input (non-negative daily requests, token counts and rates, a
  period of a whole number of days, at least one), the returned breakdown satisfies
  total cost = input cost + output cost, and the three components are non-negative.
\<close>

theorem cost_breakdown_invariant:
  assumes "valid_input_spec r p c (days g) (prompt_cost_per_1k_tokens g)
             (completion_cost_per_1k_tokens g)"
  shows "\<exists>total_cost input_cost output_cost.
           calculate_token_cost g r p c = Inr (total_cost, input_cost, output_cost) \<and>
           total_cost = input_cost + output_cost \<and>
           0 \<le> input_cost \<and> 0 \<le> output_cost \<and> 0 \<le> total_cost"
proof -
  from assms have nn: "0 \<le> r" "0 \<le> p" "0 \<le> c" "0 \<le> days g"
    "0 \<le> prompt_cost_per_1k_tokens g" "0 \<le> completion_cost_per_1k_tokens g"
    by (simp_all add: valid_input_spec_def)
  have i: "0 \<le> (p * r * days g / 1000) * prompt_cost_per_1k_tokens g"
    using nn by simp
  have o: "0 \<le> (c * r * days g / 1000) * completion_cost_per_1k_tokens g"
    using nn by simp
  show ?thesis
    unfolding calculate_token_cost_value using i o by (intro exI conjI) (rule refl | simp)+
qed

theorem cost_breakdown_invariant_witness:
  "valid_input_spec 1000 300 500 30 (3 / 100) (6 / 100) \<and>
   calculate_token_cost notebook_globals 1000 300 500 = Inr (270 + 900, 270, 900)"
  using cost_breakdown_invariant [of 1000 300 500 notebook_globals]
  by (simp add: valid_input_spec_def notebook_globals_def calculate_token_cost_value)

text \<open>
  Claim C7. The cost function is homogeneous of degree one in each parameter on its own.
  For every \<open>k \<ge> 0\<close>: multiplying the daily requests by \<open>k\<close>, or the period by
  \<open>k\<close>, multiplies the prompt cost, the completion cost and the total by \<open>k\<close>;
  multiplying the prompt tokens by \<open>k\<close> multiplies the prompt cost by \<open>k\<close> and
  leaves the completion cost; multiplying the completion tokens by \<open>k\<close> multiplies
  the completion cost by \<open>k\<close> and leaves the prompt cost. At \<open>k = 0\<close>: zero daily
  requests cost nothing, whatever the token counts.
\<close>

theorem cost_homogeneous:
  assumes "0 \<le> k"
    and "calculate_token_cost g r p c = Inr (total_cost, prompt_cost, completion_cost)"
  shows "calculate_token_cost g (k * r) p c
           = Inr (k * total_cost, k * prompt_cost, k * completion_cost) \<and>
         calculate_token_cost (g\<lparr>days := k * days g\<rparr>) r p c
           = Inr (k * total_cost, k * prompt_cost, k * completion_cost) \<and>
         calculate_token_cost g r (k * p) c
           = Inr (k * prompt_cost + completion_cost, k * prompt_cost, completion_cost) \<and>
         calculate_token_cost g r p (k * c)
           = Inr (prompt_cost + k * completion_cost, prompt_cost, k * completion_cost) \<and>
         calculate_token_cost g 0 p c = Inr (0, 0, 0)"
  using assms(2) unfolding calculate_token_cost_value
  by (auto simp: algebra_simps)

theorem cost_homogeneous_witness:
  "calculate_token_cost notebook_globals 1000 300 500 = Inr (1170, 270, 900) \<and>
   calculate_token_cost notebook_globals (2 * 1000) 300 500 = Inr (2340, 540, 1800) \<and>
   calculate_token_cost (notebook_globals\<lparr>days := 2 * 30\<rparr>) 1000 300 500
     = Inr (2340, 540, 1800) \<and>
   calculate_token_cost notebook_globals 1000 (2 * 300) 500 = Inr (1440, 540, 900) \<and>
   calculate_token_cost notebook_globals 1000 300 (2 * 500) = Inr (2070, 270, 1800)"
proof -
  have k: "(0::real) \<le> 2" by simp
  have b: "calculate_token_cost notebook_globals 1000 300 500 = Inr (1170, 270, 900)"
    by (simp add: calculate_token_cost_value notebook_globals_def)
  show ?thesis
    using cost_homogeneous [OF k b] b by (simp add: notebook_globals_def)
qed

subsection \<open>The sensitivity sweep\<close>

text \<open>
  Each loop appends to the list it is given, and the body never raises, so the three
  loops together append the specification's result sequence.
\<close>

lemma completion_loop_value:
  "completion_loop g r p cs cost_matrix =
     Inr (cost_matrix @ map (\<lambda>c. (r, p, c,
        snd (snd (computeCost_spec r p c (days g) (prompt_cost_per_1k_tokens g)
                    (completion_cost_per_1k_tokens g))))) cs)"
  by (induction cs arbitrary: cost_matrix)
     (simp_all add: calculate_token_cost_value computeCost_spec_value)

lemma prompt_loop_value:
  "prompt_loop g r ps cs cost_matrix =
     Inr (cost_matrix @ concat (map (\<lambda>p. map (\<lambda>c. (r, p, c,
        snd (snd (computeCost_spec r p c (days g) (prompt_cost_per_1k_tokens g)
                    (completion_cost_per_1k_tokens g))))) cs) ps))"
  by (induction ps arbitrary: cost_matrix) (simp_all add: completion_loop_value)

lemma requests_loop_value:
  "requests_loop g rs ps cs cost_matrix =
     Inr (cost_matrix @ sweep_spec rs ps cs (days g) (prompt_cost_per_1k_tokens g)
                  (completion_cost_per_1k_tokens g))"
  by (induction rs arbitrary: cost_matrix) (simp_all add: prompt_loop_value sweep_spec_def)

lemma length_sweep_spec:
  "length (sweep_spec rs ps cs d rate_in rate_out) = length rs * length ps * length cs"
proof -
  have inner: "length (concat (map (\<lambda>p. map (f p) cs) ps)) = length ps * length cs"
    for f :: "real \<Rightarrow> real \<Rightarrow> row"
    by (induction ps) simp_all
  show ?thesis
    unfolding sweep_spec_def
    by (induction rs) (simp_all add: inner add_mult_distrib)
qed

lemma sweep_spec_combinations:
  "map (\<lambda>(r, p, c, t). (r, p, c)) (sweep_spec rs ps cs d rate_in rate_out) =
     List.product rs (List.product ps cs)"
proof -
  have inner: "map (\<lambda>(r, p, c, t). (r, p, c))
        (concat (map (\<lambda>p. map (\<lambda>c.
           (r, p, c, snd (snd (computeCost_spec r p c d rate_in rate_out)))) cs) ps))
      = map (Pair r) (List.product ps cs)" for r
    by (induction ps) (simp_all add: comp_def)
  show ?thesis
    unfolding sweep_spec_def
    by (induction rs) (simp_all add: inner)
qed

lemma sweep_spec_rows:
  assumes "(r, p, c, t) \<in> set (sweep_spec rs ps cs (days g) (prompt_cost_per_1k_tokens g)
              (completion_cost_per_1k_tokens g))"
  shows "\<exists>prompt_cost completion_cost.
           calculate_token_cost g r p c = Inr (t, prompt_cost, completion_cost)"
proof -
  from assms have "t = snd (snd (computeCost_spec r p c (days g)
      (prompt_cost_per_1k_tokens g) (completion_cost_per_1k_tokens g)))"
    by (auto simp: sweep_spec_def)
  then show ?thesis
    unfolding calculate_token_cost_value computeCost_spec_value snd_conv by blast
qed

text \<open>
  Claim C4. For all finite input ranges, of sizes \<open>a\<close>, \<open>b\<close> and \<open>c\<close>, the sweep
  returns exactly \<open>a * b * c\<close> tuples (daily requests, prompt tokens, completion
  tokens, total cost), in row-major order: daily requests in the outer loop, prompt tokens
  in the middle loop, completion tokens in the inner loop. The total cost of each tuple
  is the total that the cost function returns for that combination.
\<close>

theorem sweep_row_major:
  "\<exists>rows. sweep g rs ps cs = Inr rows \<and>
     rows = sweep_spec rs ps cs (days g) (prompt_cost_per_1k_tokens g)
              (completion_cost_per_1k_tokens g) \<and>
     length rows = length rs * length ps * length cs \<and>
     map (\<lambda>(r, p, c, t). (r, p, c)) rows = List.product rs (List.product ps cs) \<and>
     (\<forall>(r, p, c, t) \<in> set rows. \<exists>prompt_cost completion_cost.
        calculate_token_cost g r p c = Inr (t, prompt_cost, completion_cost))"
proof (intro exI conjI)
  let ?rows = "sweep_spec rs ps cs (days g) (prompt_cost_per_1k_tokens g)
                 (completion_cost_per_1k_tokens g)"
  show "sweep g rs ps cs = Inr ?rows"
    by (simp add: sweep_def requests_loop_value)
  show "?rows = ?rows" ..
  show "length ?rows = length rs * length ps * length cs"
    by (rule length_sweep_spec)
  show "map (\<lambda>(r, p, c, t). (r, p, c)) ?rows = List.product rs (List.product ps cs)"
    by (rule sweep_spec_combinations)
  show "\<forall>(r, p, c, t) \<in> set ?rows. \<exists>prompt_cost completion_cost.
          calculate_token_cost g r p c = Inr (t, prompt_cost, completion_cost)"
    using sweep_spec_rows by blast
qed

theorem sweep_row_major_witness:
  "sweep notebook_globals [500, 1000] [100, 200] [200, 300] =
     Inr [(500, 100, 200, 225), (500, 100, 300, 315), (500, 200, 200, 270),
          (500, 200, 300, 360), (1000, 100, 200, 450), (1000, 100, 300, 630),
          (1000, 200, 200, 540), (1000, 200, 300, 720)] \<and>
   calculate_token_cost notebook_globals 500 100 200 = Inr (225, 45, 180)"
proof -
  have "sweep notebook_globals [500, 1000] [100, 200] [200, 300] =
     Inr [(500, 100, 200, 225), (500, 100, 300, 315), (500, 200, 200, 270),
          (500, 200, 300, 360), (1000, 100, 200, 450), (1000, 100, 300, 630),
          (1000, 200, 200, 540), (1000, 200, 300, 720)]"
    using sweep_row_major [of notebook_globals "[500, 1000]" "[100, 200]" "[200, 300]"]
    by (simp add: sweep_spec_def computeCost_spec_value notebook_globals_def)
  moreover have "calculate_token_cost notebook_globals 500 100 200 = Inr (225, 45, 180)"
    by (simp add: calculate_token_cost_value notebook_globals_def)
  ultimately show ?thesis by simp
qed

text \<open>
  Claim C9. When at least one of the three input ranges is empty, the sweep returns the
  empty result sequence, and it does not fail.
\<close>

theorem sweep_empty_range:
  assumes "rs = [] \<or> ps = [] \<or> cs = []"
  shows "sweep g rs ps cs = Inr []"
  using assms
  by (auto simp: sweep_def requests_loop_value sweep_spec_def)

theorem sweep_empty_range_witness:
  "sweep notebook_globals [] [100, 200] [200, 300] = Inr [] \<and>
   sweep notebook_globals [500, 1000] [] [200, 300] = Inr [] \<and>
   sweep notebook_globals [500, 1000] [100, 200] [] = Inr []"
  using sweep_empty_range [of "[]" "[100, 200]" "[200, 300]" notebook_globals]
    sweep_empty_range [of "[500, 1000]" "[]" "[200, 300]" notebook_globals]
    sweep_empty_range [of "[500, 1000]" "[100, 200]" "[]" notebook_globals]
  by simp


subsection \<open>The prompt engineering scenario\<close>

text \<open>
  Claim C6. For every factor between 0 and 1, the reduction gives the token counts
  \<open>p * factor\<close> and \<open>c * factor\<close>, and the optimized cost is the cost function
  applied to the unchanged daily request count and these token counts, under the same
  namespace (so the same period). With factor 1 the token counts, and the cost, are those
  of the baseline; with factor 0 the token counts are zero and so is the cost.
\<close>

theorem reduction_frame:
  assumes "0 \<le> factor" and "factor \<le> 1"
  shows "optimized_tokens factor g
           = (base_prompt_tokens g * factor, base_completion_tokens g * factor) \<and>
         optimized factor g
           = calculate_token_cost g (base_daily_requests g) (base_prompt_tokens g * factor)
               (base_completion_tokens g * factor) \<and>
         optimized_tokens 1 g = (base_prompt_tokens g, base_completion_tokens g) \<and>
         optimized 1 g = baseline g \<and>
         optimized_tokens 0 g = (0, 0) \<and>
         optimized 0 g = Inr (0, 0, 0)"
  by (simp add: optimized_tokens_def optimized_def baseline_def calculate_token_cost_value)

theorem reduction_frame_witness:
  "optimized_tokens (7 / 10) notebook_globals = (210, 350) \<and>
   optimized (7 / 10) notebook_globals
     = calculate_token_cost notebook_globals 1000 210 350"
  using reduction_frame [of "7 / 10" notebook_globals]
  by (simp add: notebook_globals_def)

text \<open>
  Claim C8. In the reference scenario, prices 0.03 and 0.06, 1000 daily requests, 300
  prompt tokens, 500 completion tokens and 30 days, the baseline has input cost 270,
  output cost 900 and total 1170. With factor 0.7 the token counts are 210 and 350, the
  input cost 189, the output cost 630 and the total 819; the savings are 351 and the
  percentage is 30.
\<close>

theorem reference_scenario:
  "baseline notebook_globals = Inr (1170, 270, 900) \<and>
   optimized_tokens (7 / 10) notebook_globals = (210, 350) \<and>
   optimized (7 / 10) notebook_globals = Inr (819, 189, 630) \<and>
   cost_savings 1170 819 = Inr (351, 30) \<and>
   step3 notebook_globals = Inr (1170, 819, 351, 30)"
  by (simp add: step3_def impact_def baseline_def optimized_def optimized_tokens_def
      cost_savings_def truediv_def calculate_token_cost_value notebook_globals_def)

text \<open>
  Claim C3, as the specification states it: the percentage is computed only when the
  baseline total is positive, and with a baseline total of zero it is reported as
  undefined, without an uncontrolled exception. The code divides without a guard. With
  zero daily requests the baseline total is zero and the cell ends in an uncaught
  \<^verbatim>\<open>ZeroDivisionError\<close>; with a negative baseline total the percentage is computed.
\<close>

theorem percentage_zero_baseline_raises:
  "baseline (notebook_globals\<lparr>base_daily_requests := 0\<rparr>) = Inr (0, 0, 0) \<and>
   step3 (notebook_globals\<lparr>base_daily_requests := 0\<rparr>) = Inl ZeroDivisionError \<and>
   cost_savings 0 0 = Inl ZeroDivisionError \<and>
   baseline (notebook_globals\<lparr>base_daily_requests := -1000\<rparr>) = Inr (-1170, -270, -900) \<and>
   step3 (notebook_globals\<lparr>base_daily_requests := -1000\<rparr>) = Inr (-1170, -819, -351, 30)"
  by (simp add: step3_def impact_def baseline_def optimized_def optimized_tokens_def
      cost_savings_def truediv_def calculate_token_cost_value notebook_globals_def)

text \<open>
  Claim C3, amended. The savings and the percentage \<open>savings / baseline_total * 100\<close>
  are computed for every baseline total other than zero, positive or negative. With a
  baseline total of zero the division raises \<^verbatim>\<open>ZeroDivisionError\<close>, which nothing
  catches, and no percentage is printed.
\<close>

theorem cost_savings_value:
  "cost_savings baseline_cost optimized_cost =
     (if baseline_cost = 0 then Inl ZeroDivisionError
      else Inr (baseline_cost - optimized_cost,
                (baseline_cost - optimized_cost) / baseline_cost * 100))"
  by (simp add: cost_savings_def truediv_def)

end
